theory Spec2Isabelle
  imports Main "HOL-Library.Word"
begin

section \<open>Health-check registries (package healthcheck, factory.go)\<close>

text \<open>
  The package keeps two process-wide maps, both created empty by \<open>init\<close>:
  \<open>sessionFactories\<close>, keyed by protocol, and \<open>commonCallbacks\<close>, keyed by name. Each
  function below takes the map it reads and returns the map it leaves behind.
\<close>

type_synonym Protocol = string

record v2_HealthCheck =
  hcProtocol :: string
  hcServiceName :: string

text \<open>
  \<open>types.HealthCheckSessionFactory\<close> is an interface. The only implementation the file
  names is \<open>TCPDialSessionFactory\<close>; every other one is a value of the type parameter.
\<close>

datatype 'f HealthCheckSessionFactory = TCPDialSessionFactory | SessionFactory 'f

definition init_sessionFactories :: "Protocol \<rightharpoonup> 'f HealthCheckSessionFactory" where
  "init_sessionFactories = Map.empty"

definition init_commonCallbacks :: "string \<rightharpoonup> 'cb" where
  "init_commonCallbacks = Map.empty"

definition RegisterSessionFactory ::
  "(Protocol \<rightharpoonup> 'f HealthCheckSessionFactory) \<Rightarrow> Protocol \<Rightarrow> 'f HealthCheckSessionFactory
    \<Rightarrow> (Protocol \<rightharpoonup> 'f HealthCheckSessionFactory)" where
  "RegisterSessionFactory sessionFactories p f = sessionFactories(p \<mapsto> f)"

text \<open>
  \<open>newHealthChecker\<close> is declared in another file of the package; it is the first argument.
\<close>

definition CreateHealthCheck ::
  "(v2_HealthCheck \<Rightarrow> 'c \<Rightarrow> 'f HealthCheckSessionFactory \<Rightarrow> 'h)
    \<Rightarrow> (Protocol \<rightharpoonup> 'f HealthCheckSessionFactory) \<Rightarrow> v2_HealthCheck \<Rightarrow> 'c \<Rightarrow> 'h" where
  "CreateHealthCheck newHealthChecker sessionFactories cfg cluster =
     (let f = (case sessionFactories (hcProtocol cfg) of
                 Some g \<Rightarrow> g
               | None \<Rightarrow> TCPDialSessionFactory)
      in newHealthChecker cfg cluster f)"

definition RegisterCommonCallbacks ::
  "(string \<rightharpoonup> 'cb) \<Rightarrow> string \<Rightarrow> 'cb \<Rightarrow> bool \<times> (string \<rightharpoonup> 'cb)" where
  "RegisterCommonCallbacks commonCallbacks name cb =
     (case commonCallbacks name of
        Some _ \<Rightarrow> (False, commonCallbacks)
      | None \<Rightarrow> (False, commonCallbacks(name \<mapsto> cb)))"

section \<open>Cluster manager: data model (package cluster)\<close>

subsection \<open>Configuration\<close>

record v2_Host =
  Address :: string
  Hostname :: string
  Weight :: "32 word"

record v2_Cluster =
  Name :: string
  ClusterType :: string
  LbType :: string
  Hosts :: "v2_Host list"

text \<open>\<open>time.Duration\<close>: a count of nanoseconds.\<close>

type_synonym Duration = int



subsection \<open>Hosts, load balancers, clusters\<close>

text \<open>
  Modelled from the spec: \<open>NewHost\<close> and the host type are not in the sources. A host is
  the configuration it was built from and the cluster it belongs to; its address string is
  the configured address and \<open>Config\<close> gives the configuration back.
\<close>

record Host =
  hostConfig :: v2_Host
  hostCluster :: string

definition NewHost :: "v2_Host \<Rightarrow> string \<Rightarrow> Host" where
  "NewHost hc clusterName = \<lparr>hostConfig = hc, hostCluster = clusterName\<rparr>"

definition AddressString :: "Host \<Rightarrow> string" where
  "AddressString h = Address (hostConfig h)"

definition Config :: "Host \<Rightarrow> v2_Host" where
  "Config h = hostConfig h"

text \<open>
  \<open>context.Context\<close> carries the cancellation token; the load-balancer context hands it
  out as \<open>DownstreamContext\<close>.
\<close>

record Context =
  cancelled :: bool

record LoadBalancerContext =
  DownstreamContext :: Context
  DownstreamHeaders :: "(string \<times> string) list"

text \<open>
  The load-balancing algorithms are not in the sources, and a balancer has state of its
  own (round robin, random). A balancer is taken as the answers it gives: \<open>ChooseHost lb k ctx\<close>
  is what the \<open>k\<close>-th call of one operation returns, \<open>None\<close> for nil.
\<close>

type_synonym LoadBalancer = "nat \<Rightarrow> LoadBalancerContext \<Rightarrow> Host option"

definition ChooseHost :: "LoadBalancer \<Rightarrow> nat \<Rightarrow> LoadBalancerContext \<Rightarrow> Host option" where
  "ChooseHost lb k ctx = lb k ctx"

record ClusterInfo =
  infoName :: string
  LBInstance :: LoadBalancer

text \<open>A priority set is the vector of its host sets, index 0 first.\<close>

type_synonym PrioritySet = "Host list list"

text \<open>
  \<open>HostSetsByPriority()[p]\<close>: indexing a Go slice out of range panics, which is \<open>None\<close>.
\<close>

definition HostSetAt :: "PrioritySet \<Rightarrow> 32 word \<Rightarrow> Host list option" where
  "HostSetAt ps p = (if unat p < length ps then Some (ps ! unat p) else None)"

record simpleInMemCluster =
  scInfo :: ClusterInfo
  scHosts :: "Host list"
  scPrioritySet :: PrioritySet

text \<open>
  \<open>types.Cluster\<close> is an interface; the manager tests for \<open>*simpleInMemCluster\<close> with a
  type assertion wherever it needs the host list.
\<close>

datatype Cluster =
    SimpleInMemCluster simpleInMemCluster
  | OtherCluster ClusterInfo PrioritySet

fun Info :: "Cluster \<Rightarrow> ClusterInfo" where
  "Info (SimpleInMemCluster c) = scInfo c"
| "Info (OtherCluster i ps) = i"

fun GetPrioritySet :: "Cluster \<Rightarrow> PrioritySet" where
  "GetPrioritySet (SimpleInMemCluster c) = scPrioritySet c"
| "GetPrioritySet (OtherCluster i ps) = ps"

text \<open>
  Modelled from the spec: \<open>simpleInMemCluster.UpdateHosts\<close> is not in the sources. The call
  carries no priority. By the spec the host update rebuilds the host set with the new host
  list, in its order, and endpoint updates use priority 0 only: the list becomes the
  cluster's \<open>hosts\<close> and the host set at index 0, created when the vector is empty.
\<close>

definition scUpdateHosts :: "simpleInMemCluster \<Rightarrow> Host list \<Rightarrow> simpleInMemCluster" where
  "scUpdateHosts c newHosts =
     c\<lparr>scHosts := newHosts,
       scPrioritySet := (case scPrioritySet c of [] \<Rightarrow> [newHosts] | hs # rest \<Rightarrow> newHosts # rest)\<rparr>"

subsection \<open>Errors\<close>

text \<open>
  One constructor for each place where the manager builds an error, with the values its
  message is formatted from; \<open>rcuBlock\<close> is \<open>rcu.Block\<close>. \<open>Panic\<close> is no error value of
  the program: it marks a run-time panic in a function whose result has no other place for it.
\<close>

datatype error =
    rcuBlock
  | ErrNilClusterOrConfig
  | ErrRemoveNotAddedViaAPI string
  | ErrRemoveNotExist string
  | ErrUpdateHostsFailed string error
  | ErrUpdateHostsNotFound string
  | ErrHostAddressNil
  | ErrRemoveHostFailed string string error
  | ErrHostNotExist string
  | ErrClusterNotValid string
  | ErrClusterNotExist string
  | ErrChooseHostNil
  | ErrNewPoolFactoryNil Protocol
  | ErrNoHealthHosts
  | Panic

subsection \<open>The RCU cell\<close>

text \<open>
  Modelled from the spec: package \<open>rcu\<close> is not in the sources. A cell holds the current
  value and, for every value it has held, the count of readers still holding it. A value is
  named by its generation, which is the pointer a reader observes. \<open>Load\<close> adds one to the
  current value's count and returns its pointer; \<open>Put\<close> takes one from the count of the
  pointer it is given. \<open>Update\<close> stores the new value as current, then waits for the previous
  value's readers: no reader can return a ticket while a sequential run waits, so the wait
  ends at once, drained when the previous value has no reader and with \<open>Block\<close> otherwise.
\<close>

record rcuValue =
  element :: nat
  held :: "nat \<Rightarrow> v2_Cluster"
  readers :: "nat \<Rightarrow> int"

definition rcuNewValue :: "v2_Cluster \<Rightarrow> rcuValue" where
  "rcuNewValue v = \<lparr>element = 0, held = (\<lambda>_. v), readers = (\<lambda>_. 0)\<rparr>"

definition rcuLoad :: "rcuValue \<Rightarrow> nat \<times> rcuValue" where
  "rcuLoad c = (element c, c\<lparr>readers := (readers c)(element c := readers c (element c) + 1)\<rparr>)"

definition rcuPut :: "rcuValue \<Rightarrow> nat \<Rightarrow> rcuValue" where
  "rcuPut c p = c\<lparr>readers := (readers c)(p := readers c p - 1)\<rparr>"

definition rcuUpdate :: "rcuValue \<Rightarrow> v2_Cluster \<Rightarrow> Duration \<Rightarrow> error option \<times> rcuValue" where
  "rcuUpdate c v wait =
     (let old = element c;
          new = Suc old;
          c' = c\<lparr>element := new, held := (held c)(new := v), readers := (readers c)(new := 0)\<rparr>
      in (if readers c old = 0 then None else Some rcuBlock, c'))"

subsection \<open>Primary clusters, snapshots, the manager\<close>

text \<open>
  \<open>configLock\<close> is a pointer to an RCU cell and a snapshot keeps the same pointer, so cells
  live in a store of their own, \<open>cells\<close>, and are named by their address there.
\<close>

record primaryCluster =
  cluster :: Cluster
  addedViaAPI :: bool
  configUsed :: v2_Cluster
  configLock :: nat

record clusterSnapshot =
  prioritySet :: PrioritySet
  clusterInfo :: ClusterInfo
  loadbalancer :: LoadBalancer
  csValue :: nat
  csConfig :: nat

text \<open>
  A \<open>types.ClusterSnapshot\<close> argument is nil (\<open>None\<close>), the manager's own
  \<open>*clusterSnapshot\<close>, or some other implementation of the interface.
\<close>

datatype ClusterSnapshot =
    OwnSnapshot clusterSnapshot
  | ForeignSnapshot ClusterInfo

text \<open>
  Modelled from the spec: the pool implementations are not in the sources. A pool is keyed
  by protocol and host, so it is taken as the protocol and the host it was built for; what
  its \<open>CheckAndInit\<close> answers is left to the environment of the pool loop below.
  Package \<open>admin\<close> is outside the sources as well: the manager's calls into it are recorded
  in order.
\<close>

record ConnectionPool =
  poolProtocol :: Protocol
  poolHost :: Host

datatype adminCall =
    SetClusterConfig string v2_Cluster
  | SetHosts string "v2_Host list"
  | RemoveClusterConfig string

record clusterManager =
  sourceAddr :: string
  primaryClusters :: "string \<rightharpoonup> primaryCluster"
  protocolConnPool :: "Protocol \<rightharpoonup> (string \<rightharpoonup> ConnectionPool)"
  cells :: "nat \<Rightarrow> rcuValue"
  nextCell :: nat
  adminCalls :: "adminCall list"

section \<open>Cluster manager: operations\<close>

definition deepCopyCluster :: "v2_Cluster \<Rightarrow> v2_Cluster" where
  "deepCopyCluster c = c"

text \<open>\<open>NewPrimaryCluster\<close> allocates the cell for \<open>rcu.NewValue(config)\<close>.\<close>

definition NewPrimaryCluster ::
  "clusterManager \<Rightarrow> Cluster \<Rightarrow> v2_Cluster \<Rightarrow> bool \<Rightarrow> primaryCluster \<times> clusterManager" where
  "NewPrimaryCluster cm c config api =
     (let a = nextCell cm
      in (\<lparr>cluster = c, addedViaAPI = api, configUsed = config, configLock = a\<rparr>,
          cm\<lparr>cells := (cells cm)(a := rcuNewValue config), nextCell := Suc a\<rparr>))"

text \<open>
  The methods of \<open>*primaryCluster\<close> change the record and the cell behind \<open>configLock\<close>;
  they take both and return both, with the admin calls they made.
\<close>

definition pcUpdateCluster ::
  "primaryCluster \<Rightarrow> rcuValue \<Rightarrow> Cluster option \<Rightarrow> v2_Cluster option \<Rightarrow> bool
    \<Rightarrow> error option \<times> primaryCluster \<times> rcuValue" where
  "pcUpdateCluster pc cell c config api =
     (case (c, config) of
        (Some c', Some config') \<Rightarrow>
          (let pc' = pc\<lparr>cluster := c', configUsed := deepCopyCluster config', addedViaAPI := api\<rparr>;
               (err, cell') = rcuUpdate cell (configUsed pc') 0
           in (if err = Some rcuBlock then err else None, pc', cell'))
      | _ \<Rightarrow> (Some ErrNilClusterOrConfig, pc, cell))"

definition pcUpdateHosts ::
  "primaryCluster \<Rightarrow> rcuValue \<Rightarrow> Host list
    \<Rightarrow> error option \<times> primaryCluster \<times> rcuValue \<times> adminCall list" where
  "pcUpdateHosts pc cell hosts =
     (let (c', hosts') =
            (case cluster pc of
               SimpleInMemCluster c \<Rightarrow>
                 (let c1 = scUpdateHosts c hosts in (SimpleInMemCluster c1, scHosts c1))
             | other \<Rightarrow> (other, hosts));
          config = deepCopyCluster (configUsed pc);
          hostsConfig = map Config hosts';
          config' = config\<lparr>Hosts := hostsConfig\<rparr>;
          pc' = pc\<lparr>cluster := c', configUsed := config'\<rparr>;
          (err, cell') = rcuUpdate cell (configUsed pc') 0
      in if err = Some rcuBlock then (err, pc', cell', [])
         else (None, pc', cell', [SetHosts (infoName (Info (cluster pc'))) hostsConfig]))"

text \<open>
  \<open>NewCluster\<close> is declared in another file of the package; it is the first argument of
  the functions that call it, \<open>None\<close> standing for the nil cluster the callers test for.
  \<open>Initialize\<close> is given a callback that registers an empty member-update callback: it
  leaves every field modelled here as it is.
\<close>

type_synonym NewClusterFn = "v2_Cluster \<Rightarrow> string \<Rightarrow> bool \<Rightarrow> Cluster option"

definition loadCluster ::
  "NewClusterFn \<Rightarrow> clusterManager \<Rightarrow> v2_Cluster \<Rightarrow> bool \<Rightarrow> bool \<times> clusterManager" where
  "loadCluster NewCluster cm clusterConfig api =
     (case NewCluster clusterConfig (sourceAddr cm) api of
        None \<Rightarrow> (False, cm)
      | Some c \<Rightarrow>
          (let (pc, cm1) = NewPrimaryCluster cm c clusterConfig api
           in (True, cm1\<lparr>primaryClusters := (primaryClusters cm1)(Name clusterConfig \<mapsto> pc)\<rparr>)))"

text \<open>
  \<open>updateCluster\<close> asserts the type of the cluster \<open>NewCluster\<close> returns without a test:
  a nil or foreign cluster there is a run-time panic, the result \<open>None\<close>. The error of
  \<open>UpdateCluster\<close> is dropped. \<open>key\<close> is the name under which the caller loaded \<open>pcluster\<close>.
\<close>

definition updateCluster ::
  "NewClusterFn \<Rightarrow> clusterManager \<Rightarrow> string \<Rightarrow> v2_Cluster \<Rightarrow> primaryCluster \<Rightarrow> bool
    \<Rightarrow> (bool \<times> clusterManager) option" where
  "updateCluster NewCluster cm key clusterConf pcluster api =
     (if clusterConf = configUsed pcluster then Some (True, cm)
      else (case cluster pcluster of
              SimpleInMemCluster concretedCluster \<Rightarrow>
                (let hosts = scHosts concretedCluster
                 in (case NewCluster clusterConf (sourceAddr cm) api of
                       Some (SimpleInMemCluster c) \<Rightarrow>
                         (let c' = SimpleInMemCluster (scUpdateHosts c hosts);
                              (err, pc', cell') =
                                 pcUpdateCluster pcluster (cells cm (configLock pcluster))
                                   (Some c') (Some clusterConf) api
                          in Some (True,
                               cm\<lparr>primaryClusters := (primaryClusters cm)(key \<mapsto> pc'),
                                  cells := (cells cm)(configLock pcluster := cell')\<rparr>))
                     | _ \<Rightarrow> None))
            | _ \<Rightarrow> Some (False, cm)))"

definition AddOrUpdatePrimaryCluster ::
  "NewClusterFn \<Rightarrow> clusterManager \<Rightarrow> v2_Cluster \<Rightarrow> (bool \<times> clusterManager) option" where
  "AddOrUpdatePrimaryCluster NewCluster cm c =
     (let clusterName = Name c;
          finish = (\<lambda>(ok, cm'). if ok
                      then (ok, cm'\<lparr>adminCalls := adminCalls cm' @ [SetClusterConfig clusterName c]\<rparr>)
                      else (ok, cm'))
      in (case primaryClusters cm clusterName of
            Some v \<Rightarrow>
              if \<not> addedViaAPI v then Some (False, cm)
              else map_option finish (updateCluster NewCluster cm clusterName c v True)
          | None \<Rightarrow> Some (finish (loadCluster NewCluster cm c True))))"

definition ClusterExist :: "clusterManager \<Rightarrow> string \<Rightarrow> bool" where
  "ClusterExist cm clusterName = (primaryClusters cm clusterName \<noteq> None)"

definition GetClusterSnapshot ::
  "clusterManager \<Rightarrow> Context \<Rightarrow> string \<Rightarrow> clusterSnapshot option \<times> clusterManager" where
  "GetClusterSnapshot cm ctx clusterName =
     (case primaryClusters cm clusterName of
        Some pc \<Rightarrow>
          (let pcc = cluster pc;
               (p, cell') = rcuLoad (cells cm (configLock pc))
           in (Some \<lparr>prioritySet = GetPrioritySet pcc, clusterInfo = Info pcc,
                      loadbalancer = LBInstance (Info pcc), csValue = configLock pc, csConfig = p\<rparr>,
               cm\<lparr>cells := (cells cm)(configLock pc := cell')\<rparr>))
      | None \<Rightarrow> (None, cm))"

definition PutClusterSnapshot :: "clusterManager \<Rightarrow> ClusterSnapshot option \<Rightarrow> clusterManager" where
  "PutClusterSnapshot cm snapshot =
     (case snapshot of
        None \<Rightarrow> cm
      | Some (OwnSnapshot s) \<Rightarrow>
          cm\<lparr>cells := (cells cm)(csValue s := rcuPut (cells cm (csValue s)) (csConfig s))\<rparr>
      | Some (ForeignSnapshot i) \<Rightarrow> cm)"

fun RemovePrimaryCluster :: "clusterManager \<Rightarrow> string list \<Rightarrow> error option \<times> clusterManager" where
  "RemovePrimaryCluster cm [] = (None, cm)"
| "RemovePrimaryCluster cm (clusterName # rest) =
     (case primaryClusters cm clusterName of
        Some v \<Rightarrow>
          if \<not> addedViaAPI v then (Some (ErrRemoveNotAddedViaAPI clusterName), cm)
          else RemovePrimaryCluster
                 (cm\<lparr>primaryClusters := (primaryClusters cm)(clusterName := None),
                    adminCalls := adminCalls cm @ [RemoveClusterConfig clusterName]\<rparr>) rest
      | None \<Rightarrow> (Some (ErrRemoveNotExist clusterName), cm))"

text \<open>
  Both host mutators end in \<open>pc.UpdateHosts\<close>, which changes the primary cluster behind
  the pointer loaded from the map: the entry and the cell are written back.
\<close>

definition storeHosts ::
  "clusterManager \<Rightarrow> string \<Rightarrow> primaryCluster \<Rightarrow> Host list \<Rightarrow> error option \<times> clusterManager" where
  "storeHosts cm key pc hosts =
     (let (err, pc', cell', calls) = pcUpdateHosts pc (cells cm (configLock pc)) hosts
      in (err, cm\<lparr>primaryClusters := (primaryClusters cm)(key \<mapsto> pc'),
                 cells := (cells cm)(configLock pc := cell'),
                 adminCalls := adminCalls cm @ calls\<rparr>))"

definition UpdateClusterHosts ::
  "clusterManager \<Rightarrow> string \<Rightarrow> 32 word \<Rightarrow> v2_Host list \<Rightarrow> error option \<times> clusterManager" where
  "UpdateClusterHosts cm clusterName priority hostConfigs =
     (case primaryClusters cm clusterName of
        Some pc \<Rightarrow>
          (let hosts = map (\<lambda>hc. NewHost hc (infoName (Info (cluster pc)))) hostConfigs;
               (err, cm') = storeHosts cm clusterName pc hosts
           in (case err of
                 Some e \<Rightarrow> (Some (ErrUpdateHostsFailed clusterName e), cm')
               | None \<Rightarrow> (None, cm')))
      | None \<Rightarrow> (Some (ErrUpdateHostsNotFound clusterName), cm))"

text \<open>
  The search loop of \<open>RemoveClusterHost\<close>: at the first index whose host has the address,
  the hosts before it and the hosts after it; \<open>None\<close> when the loop ends with \<open>found\<close> false.
\<close>

fun removeFirstMatch :: "string \<Rightarrow> Host list \<Rightarrow> Host list \<Rightarrow> Host list option" where
  "removeFirstMatch hostAddress before [] = None"
| "removeFirstMatch hostAddress before (h # after) =
     (if hostAddress = AddressString h then Some (before @ after)
      else removeFirstMatch hostAddress (before @ [h]) after)"

definition RemoveClusterHost ::
  "clusterManager \<Rightarrow> string \<Rightarrow> string \<Rightarrow> error option \<times> clusterManager" where
  "RemoveClusterHost cm clusterName hostAddress =
     (if hostAddress = [] then (Some ErrHostAddressNil, cm)
      else (case primaryClusters cm clusterName of
              Some pc \<Rightarrow>
                (case cluster pc of
                   SimpleInMemCluster concretedCluster \<Rightarrow>
                     (case removeFirstMatch hostAddress [] (scHosts concretedCluster) of
                        Some ccHosts \<Rightarrow>
                          (let (err, cm') = storeHosts cm clusterName pc ccHosts
                           in (case err of
                                 Some e \<Rightarrow> (Some (ErrRemoveHostFailed hostAddress clusterName e), cm')
                               | None \<Rightarrow> (None, cm')))
                      | None \<Rightarrow> (Some (ErrHostNotExist hostAddress), cm))
                 | _ \<Rightarrow> (Some (ErrClusterNotValid clusterName), cm))
            | None \<Rightarrow> (Some (ErrClusterNotExist clusterName), cm)))"

section \<open>Connections and pools\<close>

text \<open>
  \<open>host.CreateConnection\<close> is not in the sources; it is the first argument of
  \<open>TCPConnForCluster\<close>. The result is the connection data with the hosts that were
  dialled, in order.
\<close>

record CreateConnectionData =
  Connection :: "string option"
  HostInfo :: "Host option"

definition emptyConnectionData :: CreateConnectionData where
  "emptyConnectionData = \<lparr>Connection = None, HostInfo = None\<rparr>"

definition TCPConnForCluster ::
  "(Host \<Rightarrow> CreateConnectionData) \<Rightarrow> LoadBalancerContext \<Rightarrow> ClusterSnapshot option
    \<Rightarrow> CreateConnectionData \<times> Host list" where
  "TCPConnForCluster CreateConnection lbCtx snapshot =
     (case snapshot of
        None \<Rightarrow> (emptyConnectionData, [])
      | Some (ForeignSnapshot i) \<Rightarrow> (emptyConnectionData, [])
      | Some (OwnSnapshot cs) \<Rightarrow>
          (case ChooseHost (loadbalancer cs) 0 lbCtx of
             Some host \<Rightarrow> (CreateConnection host, [host])
           | None \<Rightarrow> (emptyConnectionData, [])))"

subsection \<open>The pool-selection loop\<close>


datatype event =
    EvChooseHost nat
  | EvCheckAndInit ConnectionPool bool
  | EvLock
  | EvUnlock
  | EvStore Protocol string ConnectionPool
  | EvSleep Duration

record poolRun =
  runManager :: clusterManager
  runChecks :: nat
  runEvents :: "event list"


definition logEvent :: "event \<Rightarrow> poolRun \<Rightarrow> poolRun" where
  "logEvent e r = r\<lparr>runEvents := runEvents r @ [e]\<rparr>"


definition setConnectionPool :: "Protocol \<Rightarrow> (string \<rightharpoonup> ConnectionPool) \<Rightarrow> poolRun \<Rightarrow> poolRun" where
  "setConnectionPool protocol connectionPool r =
     r\<lparr>runManager := (runManager r)\<lparr>protocolConnPool :=
          (protocolConnPool (runManager r))(protocol \<mapsto> connectionPool)\<rparr>\<rparr>"










section \<open>A sample manager\<close>

text \<open>
  Concrete values on which the statements below are evaluated: two hosts, a constructor of
  simple in-memory clusters that refuses every cluster type but \<open>SIMPLE\<close>, and the manager
  after cluster \<open>c1\<close> was added and given both hosts.
\<close>

definition hostA :: v2_Host where
  "hostA = \<lparr>Address = ''10.0.0.1:8080'', Hostname = ''a'', Weight = 1\<rparr>"

definition hostB :: v2_Host where
  "hostB = \<lparr>Address = ''10.0.0.2:8080'', Hostname = ''b'', Weight = 1\<rparr>"

definition demoLB :: LoadBalancer where
  "demoLB = (\<lambda>k ctx. Some (NewHost hostA ''c1''))"

definition demoConfig :: v2_Cluster where
  "demoConfig = \<lparr>Name = ''c1'', ClusterType = ''SIMPLE'', LbType = ''LB_RANDOM'', Hosts = []\<rparr>"

definition demoNewCluster :: NewClusterFn where
  "demoNewCluster cfg addr api =
     (if ClusterType cfg = ''SIMPLE''
      then Some (SimpleInMemCluster
             \<lparr>scInfo = \<lparr>infoName = Name cfg, LBInstance = demoLB\<rparr>, scHosts = [], scPrioritySet = []\<rparr>)
      else None)"

definition emptyManager :: clusterManager where
  "emptyManager =
     \<lparr>sourceAddr = ''127.0.0.1:0'', primaryClusters = Map.empty,
      protocolConnPool = [''Http1'' \<mapsto> Map.empty],
      cells = (\<lambda>_. rcuNewValue demoConfig), nextCell = 0, adminCalls = []\<rparr>"

definition demoAdded :: clusterManager where
  "demoAdded = snd (the (AddOrUpdatePrimaryCluster demoNewCluster emptyManager demoConfig))"

definition demoManager :: clusterManager where
  "demoManager = snd (UpdateClusterHosts demoAdded ''c1'' 0 [hostA, hostB])"

definition demoCtx :: LoadBalancerContext where
  "demoCtx = \<lparr>DownstreamContext = \<lparr>cancelled = False\<rparr>, DownstreamHeaders = []\<rparr>"

definition demoSnapshot :: clusterSnapshot where
  "demoSnapshot = the (fst (GetClusterSnapshot demoManager \<lparr>cancelled = False\<rparr> ''c1''))"

definition demoDial :: "Host \<Rightarrow> CreateConnectionData" where
  "demoDial h = \<lparr>Connection = Some (AddressString h), HostInfo = Some h\<rparr>"


text \<open>
  Variants of it: with a cluster of a foreign implementation registered, and with one reader
  holding a snapshot of \<open>c1\<close>.
\<close>

definition demoForeign :: clusterManager where
  "demoForeign =
     demoManager\<lparr>primaryClusters := (primaryClusters demoManager)
        (''ext'' \<mapsto> (the (primaryClusters demoManager ''c1''))
           \<lparr>cluster := OtherCluster \<lparr>infoName = ''ext'', LBInstance = demoLB\<rparr> []\<rparr>)\<rparr>"

definition demoHeld :: clusterManager where
  "demoHeld = snd (GetClusterSnapshot demoManager \<lparr>cancelled = False\<rparr> ''c1'')"












section \<open>Evaluation facts\<close>

lemmas demo_defs = hostA_def hostB_def demoLB_def demoConfig_def demoNewCluster_def emptyManager_def
  demoAdded_def demoManager_def demoCtx_def demoSnapshot_def

lemmas op_defs = AddOrUpdatePrimaryCluster_def loadCluster_def NewPrimaryCluster_def updateCluster_def
  UpdateClusterHosts_def storeHosts_def pcUpdateHosts_def pcUpdateCluster_def rcuUpdate_def rcuNewValue_def
  rcuLoad_def rcuPut_def scUpdateHosts_def deepCopyCluster_def NewHost_def Config_def AddressString_def
  GetClusterSnapshot_def PutClusterSnapshot_def RemoveClusterHost_def HostSetAt_def

section \<open>Health-check registries: properties\<close>

text \<open>
  Claim C8. \<open>CreateHealthCheck\<close> builds the checker with the session factory registered
  for the configuration's protocol when there is one, and with the TCP-dial factory for every
  protocol that has none; a factory just registered for the protocol is the one used.
\<close>

theorem CreateHealthCheck_session_factory:
  "(sessionFactories (hcProtocol cfg) = Some f \<longrightarrow>
      CreateHealthCheck newHealthChecker sessionFactories cfg c = newHealthChecker cfg c f) \<and>
   (sessionFactories (hcProtocol cfg) = None \<longrightarrow>
      CreateHealthCheck newHealthChecker sessionFactories cfg c
        = newHealthChecker cfg c TCPDialSessionFactory) \<and>
   CreateHealthCheck newHealthChecker (RegisterSessionFactory sessionFactories (hcProtocol cfg) g) cfg c
     = newHealthChecker cfg c g"
  by (simp add: CreateHealthCheck_def RegisterSessionFactory_def)

theorem CreateHealthCheck_session_factory_witness:
  "CreateHealthCheck (\<lambda>cfg c f. (hcProtocol cfg, f))
      (RegisterSessionFactory init_sessionFactories ''Http1'' (SessionFactory (7::nat)))
      \<lparr>hcProtocol = ''Http1'', hcServiceName = ''svc''\<rparr> ()
     = (''Http1'', SessionFactory 7) \<and>
   CreateHealthCheck (\<lambda>cfg c f. (hcProtocol cfg, f))
      (RegisterSessionFactory init_sessionFactories ''Http1'' (SessionFactory (7::nat)))
      \<lparr>hcProtocol = ''SofaRpc'', hcServiceName = ''svc''\<rparr> ()
     = (''SofaRpc'', TCPDialSessionFactory)"
proof -
  let ?m = "RegisterSessionFactory init_sessionFactories ''Http1'' (SessionFactory (7::nat))"
  let ?n = "\<lambda>(cfg::v2_HealthCheck) (c::unit) (f::nat HealthCheckSessionFactory). (hcProtocol cfg, f)"
  have a: "?m ''Http1'' = Some (SessionFactory 7)"
    by (simp add: RegisterSessionFactory_def)
  have b: "?m ''SofaRpc'' = None"
    by (simp add: RegisterSessionFactory_def init_sessionFactories_def)
  from a CreateHealthCheck_session_factory
         [of ?m "\<lparr>hcProtocol = ''Http1'', hcServiceName = ''svc''\<rparr>" "SessionFactory 7" ?n "()"]
  have 1: "CreateHealthCheck ?n ?m \<lparr>hcProtocol = ''Http1'', hcServiceName = ''svc''\<rparr> ()
             = (''Http1'', SessionFactory 7)" by simp
  from b CreateHealthCheck_session_factory
         [of ?m "\<lparr>hcProtocol = ''SofaRpc'', hcServiceName = ''svc''\<rparr>" _ ?n "()"]
  have 2: "CreateHealthCheck ?n ?m \<lparr>hcProtocol = ''SofaRpc'', hcServiceName = ''svc''\<rparr> ()
             = (''SofaRpc'', TCPDialSessionFactory)" by simp
  from 1 2 show ?thesis by simp
qed

text \<open>
  Claim C10. \<open>RegisterCommonCallbacks\<close> returns false on every input: when the name is
  taken the map is left as it is, and when the name is fresh the callback is stored and the
  answer is false all the same.
\<close>

theorem RegisterCommonCallbacks_returns_false:
  "fst (RegisterCommonCallbacks commonCallbacks name cb) = False \<and>
   (commonCallbacks name \<noteq> None \<longrightarrow>
      snd (RegisterCommonCallbacks commonCallbacks name cb) = commonCallbacks) \<and>
   (commonCallbacks name = None \<longrightarrow>
      snd (RegisterCommonCallbacks commonCallbacks name cb) = commonCallbacks(name \<mapsto> cb))"
  by (auto simp: RegisterCommonCallbacks_def split: option.splits)

theorem RegisterCommonCallbacks_returns_false_witness:
  "fst (RegisterCommonCallbacks (init_commonCallbacks :: string \<rightharpoonup> nat) ''log'' 1) = False \<and>
   snd (RegisterCommonCallbacks (init_commonCallbacks :: string \<rightharpoonup> nat) ''log'' 1) ''log'' = Some 1 \<and>
   fst (RegisterCommonCallbacks
         (snd (RegisterCommonCallbacks (init_commonCallbacks :: string \<rightharpoonup> nat) ''log'' 1)) ''log'' 2) = False \<and>
   snd (RegisterCommonCallbacks
         (snd (RegisterCommonCallbacks (init_commonCallbacks :: string \<rightharpoonup> nat) ''log'' 1)) ''log'' 2) ''log''
     = Some 1"
proof -
  let ?e = "init_commonCallbacks :: string \<rightharpoonup> nat"
  have e: "?e ''log'' = None" by (simp add: init_commonCallbacks_def)
  from e RegisterCommonCallbacks_returns_false [of ?e "''log''" 1]
  have 1: "fst (RegisterCommonCallbacks ?e ''log'' 1) = False"
    and 2: "snd (RegisterCommonCallbacks ?e ''log'' 1) = ?e(''log'' \<mapsto> 1)" by simp_all
  let ?m = "snd (RegisterCommonCallbacks ?e ''log'' 1)"
  have m: "?m ''log'' \<noteq> None" using 2 by simp
  from m RegisterCommonCallbacks_returns_false [of ?m "''log''" 2]
  have 3: "fst (RegisterCommonCallbacks ?m ''log'' 2) = False"
    and 4: "snd (RegisterCommonCallbacks ?m ''log'' 2) = ?m" by simp_all
  from 1 2 3 4 show ?thesis by simp
qed

section \<open>Raw connections\<close>

text \<open>
  Claim C9. \<open>TCPConnForCluster\<close> returns the empty connection data and dials nothing when
  the snapshot is nil, is not the manager's own snapshot type, or its load balancer chooses no
  host; it dials exactly when a host was chosen, and then that host only.
\<close>

theorem TCPConnForCluster_empty_unless_host:
  "(snapshot = None \<or> (\<exists>i. snapshot = Some (ForeignSnapshot i)) \<or>
      (\<exists>cs. snapshot = Some (OwnSnapshot cs) \<and> ChooseHost (loadbalancer cs) 0 lbCtx = None)
     \<longrightarrow> TCPConnForCluster CreateConnection lbCtx snapshot = (emptyConnectionData, [])) \<and>
   (\<forall>cs host. snapshot = Some (OwnSnapshot cs) \<and> ChooseHost (loadbalancer cs) 0 lbCtx = Some host
     \<longrightarrow> TCPConnForCluster CreateConnection lbCtx snapshot = (CreateConnection host, [host])) \<and>
   (snd (TCPConnForCluster CreateConnection lbCtx snapshot) \<noteq> []
     \<longrightarrow> (\<exists>cs host. snapshot = Some (OwnSnapshot cs) \<and>
            ChooseHost (loadbalancer cs) 0 lbCtx = Some host \<and>
            snd (TCPConnForCluster CreateConnection lbCtx snapshot) = [host]))"
  by (auto simp: TCPConnForCluster_def split: option.splits ClusterSnapshot.splits)

theorem TCPConnForCluster_empty_unless_host_witness:
  "TCPConnForCluster demoDial demoCtx None = (emptyConnectionData, []) \<and>
   TCPConnForCluster demoDial demoCtx (Some (ForeignSnapshot (clusterInfo demoSnapshot)))
     = (emptyConnectionData, []) \<and>
   TCPConnForCluster demoDial demoCtx (Some (OwnSnapshot (demoSnapshot\<lparr>loadbalancer := (\<lambda>k ctx. None)\<rparr>)))
     = (emptyConnectionData, []) \<and>
   TCPConnForCluster demoDial demoCtx (Some (OwnSnapshot demoSnapshot))
     = (demoDial (NewHost hostA ''c1''), [NewHost hostA ''c1''])"
proof -
  have lb: "ChooseHost (loadbalancer demoSnapshot) 0 demoCtx = Some (NewHost hostA ''c1'')"
    by (simp add: demo_defs op_defs ChooseHost_def Let_def)
  have 1: "TCPConnForCluster demoDial demoCtx None = (emptyConnectionData, [])"
    by (rule TCPConnForCluster_empty_unless_host [THEN conjunct1, THEN mp]) simp
  have 2: "TCPConnForCluster demoDial demoCtx (Some (ForeignSnapshot (clusterInfo demoSnapshot)))
             = (emptyConnectionData, [])"
    by (rule TCPConnForCluster_empty_unless_host [THEN conjunct1, THEN mp]) simp
  have 3: "TCPConnForCluster demoDial demoCtx
             (Some (OwnSnapshot (demoSnapshot\<lparr>loadbalancer := (\<lambda>k ctx. None)\<rparr>)))
             = (emptyConnectionData, [])"
    by (rule TCPConnForCluster_empty_unless_host [THEN conjunct1, THEN mp]) (simp add: ChooseHost_def)
  have 4: "TCPConnForCluster demoDial demoCtx (Some (OwnSnapshot demoSnapshot))
             = (demoDial (NewHost hostA ''c1''), [NewHost hostA ''c1''])"
    by (rule TCPConnForCluster_empty_unless_host
          [THEN conjunct2, THEN conjunct1, THEN spec, THEN spec, THEN mp]) (rule conjI [OF refl lb])
  from 1 2 3 4 show ?thesis by simp
qed

section \<open>Snapshots\<close>

lemma rcuPut_rcuLoad: "rcuPut (snd (rcuLoad c)) (fst (rcuLoad c)) = c"
  by (simp add: rcuPut_def rcuLoad_def)

text \<open>
  Claim C3. \<open>GetClusterSnapshot\<close> returns nil exactly when the name is not registered. For
  a registered name the snapshot keeps the cluster's RCU cell and the pointer that \<open>Load\<close> on
  that cell returned, \<open>Load\<close> having added one to that pointer's reader count;
  \<open>PutClusterSnapshot\<close> hands that pointer to \<open>Put\<close> of the same cell, which takes the
  one back, and the manager is as it was before the snapshot was taken.
\<close>

theorem snapshot_get_put:
  "(fst (GetClusterSnapshot cm ctx clusterName) = None \<longleftrightarrow> primaryClusters cm clusterName = None) \<and>
   (\<forall>pc. primaryClusters cm clusterName = Some pc \<longrightarrow>
      (\<exists>s cm'. GetClusterSnapshot cm ctx clusterName = (Some s, cm') \<and>
         csValue s = configLock pc \<and>
         (csConfig s, cells cm' (configLock pc)) = rcuLoad (cells cm (configLock pc)) \<and>
         csConfig s = element (cells cm (configLock pc)) \<and>
         readers (cells cm' (csValue s)) (csConfig s)
           = readers (cells cm (csValue s)) (csConfig s) + 1 \<and>
         (\<forall>a. a \<noteq> configLock pc \<longrightarrow> cells cm' a = cells cm a) \<and>
         primaryClusters cm' = primaryClusters cm \<and>
         cells (PutClusterSnapshot cm' (Some (OwnSnapshot s)))
           = (cells cm')(csValue s := rcuPut (cells cm' (csValue s)) (csConfig s)) \<and>
         readers (cells (PutClusterSnapshot cm' (Some (OwnSnapshot s))) (csValue s)) (csConfig s)
           = readers (cells cm' (csValue s)) (csConfig s) - 1 \<and>
         PutClusterSnapshot cm' (Some (OwnSnapshot s)) = cm))"
  by (auto simp: GetClusterSnapshot_def PutClusterSnapshot_def rcuLoad_def rcuPut_def Let_def
           split: option.splits)

theorem snapshot_get_put_witness:
  "fst (GetClusterSnapshot demoManager \<lparr>cancelled = False\<rparr> ''nope'') = None \<and>
   (\<exists>s cm'. GetClusterSnapshot demoManager \<lparr>cancelled = False\<rparr> ''c1'' = (Some s, cm') \<and>
      csValue s = 0 \<and> csConfig s = 1 \<and>
      readers (cells demoManager 0) 1 = 0 \<and> readers (cells cm' 0) 1 = 1 \<and>
      PutClusterSnapshot cm' (Some (OwnSnapshot s)) = demoManager)"
proof -
  have n: "primaryClusters demoManager ''nope'' = None"
    by (simp add: demo_defs op_defs Let_def)
  obtain pc where pc: "primaryClusters demoManager ''c1'' = Some pc" and l: "configLock pc = 0"
    by (simp add: demo_defs op_defs Let_def)
  have e: "element (cells demoManager 0) = 1" and r: "readers (cells demoManager 0) 1 = 0"
    by (simp_all add: demo_defs op_defs Let_def)
  from n snapshot_get_put [of demoManager "\<lparr>cancelled = False\<rparr>" "''nope''"]
  have 1: "fst (GetClusterSnapshot demoManager \<lparr>cancelled = False\<rparr> ''nope'') = None" by simp
  from pc snapshot_get_put [of demoManager "\<lparr>cancelled = False\<rparr>" "''c1''"]
  obtain s cm' where g: "GetClusterSnapshot demoManager \<lparr>cancelled = False\<rparr> ''c1'' = (Some s, cm')"
    and v: "csValue s = configLock pc" and c: "csConfig s = element (cells demoManager (configLock pc))"
    and i: "readers (cells cm' (csValue s)) (csConfig s)
              = readers (cells demoManager (csValue s)) (csConfig s) + 1"
    and p: "PutClusterSnapshot cm' (Some (OwnSnapshot s)) = demoManager"
    by blast
  from g v c i p l e r 1 show ?thesis by simp
qed

section \<open>Removing clusters\<close>

lemma RemovePrimaryCluster_frame:
  "RemovePrimaryCluster cm names = (err, cm') \<Longrightarrow>
     sourceAddr cm' = sourceAddr cm \<and> cells cm' = cells cm \<and> nextCell cm' = nextCell cm \<and>
     protocolConnPool cm' = protocolConnPool cm"
  by (induction names arbitrary: cm) (auto split: option.splits if_splits)








section \<open>Adding and updating clusters\<close>


lemma demoManager_c1:
  "\<exists>v. primaryClusters demoManager ''c1'' = Some v \<and> addedViaAPI v \<and>
       configUsed v = demoConfig\<lparr>Hosts := [hostA, hostB]\<rparr> \<and> configLock v = 0 \<and>
       cluster v = SimpleInMemCluster
          \<lparr>scInfo = \<lparr>infoName = ''c1'', LBInstance = demoLB\<rparr>,
           scHosts = [NewHost hostA ''c1'', NewHost hostB ''c1''],
           scPrioritySet = [[NewHost hostA ''c1'', NewHost hostB ''c1'']]\<rparr>"
  by (simp add: demoManager_def demoAdded_def emptyManager_def demoNewCluster_def demoConfig_def op_defs Let_def)




section \<open>Replacing and removing hosts\<close>

lemma storeHosts_simple:
  assumes "cluster pc = SimpleInMemCluster c"
  shows "\<exists>pc' c'. primaryClusters (snd (storeHosts cm key pc hosts)) key = Some pc' \<and>
           cluster pc' = SimpleInMemCluster c' \<and> scHosts c' = hosts \<and> scInfo c' = scInfo c \<and>
           scPrioritySet c' = (case scPrioritySet c of [] \<Rightarrow> [hosts] | hs # rest \<Rightarrow> hosts # rest) \<and>
           configUsed pc' = (configUsed pc)\<lparr>Hosts := map Config hosts\<rparr> \<and>
           addedViaAPI pc' = addedViaAPI pc \<and> configLock pc' = configLock pc"
  using assms
  by (simp add: storeHosts_def pcUpdateHosts_def scUpdateHosts_def deepCopyCluster_def Let_def
        split_def)

lemma storeHosts_error:
  "fst (storeHosts cm key pc hosts)
     = (if readers (cells cm (configLock pc)) (element (cells cm (configLock pc))) = 0
        then None else Some rcuBlock)"
  by (simp add: storeHosts_def pcUpdateHosts_def rcuUpdate_def Let_def split_def)

lemma storeHosts_frame:
  "k \<noteq> key \<Longrightarrow> primaryClusters (snd (storeHosts cm key pc hosts)) k = primaryClusters cm k"
  by (simp add: storeHosts_def Let_def split_def)

text \<open>
  Claim C2, as amended. For a registered simple in-memory cluster, after
  \<open>UpdateClusterHosts(C, p, H)\<close> returns nil, the snapshot of \<open>C\<close> has at priority 0 a
  host set whose addresses are those of \<open>H\<close>, in the order of \<open>H\<close>, whatever \<open>p\<close> is:
  the priority argument is not used, and the call does what it does for priority 0.
\<close>

theorem UpdateClusterHosts_priority_zero:
  assumes "primaryClusters cm clusterName = Some pc"
    and "cluster pc = SimpleInMemCluster c"
    and "UpdateClusterHosts cm clusterName p H = (None, cm')"
  shows "(\<exists>s cm'' hs. GetClusterSnapshot cm' ctx clusterName = (Some s, cm'') \<and>
            HostSetAt (prioritySet s) 0 = Some hs \<and>
            map AddressString hs = map Address H \<and>
            set (map AddressString hs) = set (map Address H)) \<and>
         UpdateClusterHosts cm clusterName p H = UpdateClusterHosts cm clusterName 0 H"
proof -
  let ?hosts = "map (\<lambda>hc. NewHost hc (infoName (Info (cluster pc)))) H"
  from assms(1,3) have cm': "cm' = snd (storeHosts cm clusterName pc ?hosts)"
    by (auto simp: UpdateClusterHosts_def Let_def split_def split: option.splits)
  from storeHosts_simple [OF assms(2), of cm clusterName ?hosts] cm'
  obtain pc' c' where pc': "primaryClusters cm' clusterName = Some pc'"
    and c': "cluster pc' = SimpleInMemCluster c'"
    and ps: "scPrioritySet c' = (case scPrioritySet c of [] \<Rightarrow> [?hosts] | hs # rest \<Rightarrow> ?hosts # rest)"
    by blast
  have a: "map AddressString ?hosts = map Address H"
    by (simp add: AddressString_def NewHost_def comp_def)
  from ps have h: "HostSetAt (scPrioritySet c') 0 = Some ?hosts"
    by (simp add: HostSetAt_def split: list.splits)
  from a have b: "set (map AddressString ?hosts) = set (map Address H)" by (rule arg_cong)
  obtain s cm'' where g: "GetClusterSnapshot cm' ctx clusterName = (Some s, cm'')"
    and s: "prioritySet s = scPrioritySet c'"
    using pc' c' by (simp add: GetClusterSnapshot_def Let_def split_def)
  from g s h a b have "\<exists>s cm'' hs. GetClusterSnapshot cm' ctx clusterName = (Some s, cm'') \<and>
            HostSetAt (prioritySet s) 0 = Some hs \<and>
            map AddressString hs = map Address H \<and>
            set (map AddressString hs) = set (map Address H)"
    by metis
  moreover have "UpdateClusterHosts cm clusterName p H = UpdateClusterHosts cm clusterName 0 H"
    by (simp add: UpdateClusterHosts_def)
  ultimately show ?thesis by blast
qed

lemma demoAdded_c1:
  "\<exists>v. primaryClusters demoAdded ''c1'' = Some v \<and> addedViaAPI v \<and> configLock v = 0 \<and>
       cluster v = SimpleInMemCluster
          \<lparr>scInfo = \<lparr>infoName = ''c1'', LBInstance = demoLB\<rparr>, scHosts = [], scPrioritySet = []\<rparr>"
  by (simp add: demoAdded_def emptyManager_def demoNewCluster_def demoConfig_def op_defs Let_def)

lemma demoAdded_update:
  "UpdateClusterHosts demoAdded ''c1'' p [hostA, hostB] = (None, demoManager)"
  by (simp add: demoManager_def demoAdded_def emptyManager_def demoNewCluster_def demoConfig_def
        op_defs Let_def)

theorem UpdateClusterHosts_priority_zero_witness:
  "\<exists>s cm'' hs. GetClusterSnapshot demoManager \<lparr>cancelled = False\<rparr> ''c1'' = (Some s, cm'') \<and>
     HostSetAt (prioritySet s) 0 = Some hs \<and>
     map AddressString hs = [''10.0.0.1:8080'', ''10.0.0.2:8080'']"
proof -
  from demoAdded_c1 obtain v c where v: "primaryClusters demoAdded ''c1'' = Some v"
    and c: "cluster v = SimpleInMemCluster c" by blast
  from UpdateClusterHosts_priority_zero [OF v c demoAdded_update [of 0], where ctx = "\<lparr>cancelled = False\<rparr>"]
  show ?thesis by (auto simp: hostA_def hostB_def)
qed

text \<open>
  The claim as first stated fails at priority 1: the update succeeds, the snapshot has no
  host set at priority 1, and the hosts are at priority 0.
\<close>

theorem UpdateClusterHosts_priority_counterexample:
  "fst (UpdateClusterHosts demoAdded ''c1'' 1 [hostA, hostB]) = None \<and>
   (\<exists>s cm''. GetClusterSnapshot (snd (UpdateClusterHosts demoAdded ''c1'' 1 [hostA, hostB]))
                \<lparr>cancelled = False\<rparr> ''c1'' = (Some s, cm'') \<and>
      HostSetAt (prioritySet s) 1 = None \<and>
      HostSetAt (prioritySet s) 0 = Some [NewHost hostA ''c1'', NewHost hostB ''c1''])"
proof -
  from demoManager_c1 obtain v where v: "primaryClusters demoManager ''c1'' = Some v"
    and c: "cluster v = SimpleInMemCluster
          \<lparr>scInfo = \<lparr>infoName = ''c1'', LBInstance = demoLB\<rparr>,
           scHosts = [NewHost hostA ''c1'', NewHost hostB ''c1''],
           scPrioritySet = [[NewHost hostA ''c1'', NewHost hostB ''c1'']]\<rparr>" by blast
  from v c show ?thesis
    by (simp add: demoAdded_update GetClusterSnapshot_def HostSetAt_def Let_def split_def)
qed

lemma removeFirstMatch_found:
  "\<forall>x \<in> set before. AddressString x \<noteq> a \<Longrightarrow> AddressString h = a \<Longrightarrow>
     removeFirstMatch a pre (before @ h # after) = Some (pre @ before @ after)"
  by (induction before arbitrary: pre) auto

lemma removeFirstMatch_none:
  "\<forall>x \<in> set hs. AddressString x \<noteq> a \<Longrightarrow> removeFirstMatch a pre hs = None"
  by (induction hs arbitrary: pre) auto

lemma RemoveClusterHost_found:
  assumes "hostAddress \<noteq> []" "primaryClusters cm n = Some pc" "cluster pc = SimpleInMemCluster c"
    "scHosts c = before @ h # after" "AddressString h = hostAddress"
    "\<forall>x \<in> set before. AddressString x \<noteq> hostAddress"
  shows "\<exists>err cm' pc' c'. RemoveClusterHost cm n hostAddress = (err, cm') \<and>
           primaryClusters cm' n = Some pc' \<and> cluster pc' = SimpleInMemCluster c' \<and>
           scHosts c' = before @ after \<and>
           HostSetAt (scPrioritySet c') 0 = Some (before @ after) \<and>
           (readers (cells cm (configLock pc)) (element (cells cm (configLock pc))) = 0
              \<longrightarrow> err = None) \<and>
           (readers (cells cm (configLock pc)) (element (cells cm (configLock pc))) \<noteq> 0
              \<longrightarrow> err = Some (ErrRemoveHostFailed hostAddress n rcuBlock))"
proof -
  from assms(4-6) have r: "removeFirstMatch hostAddress [] (scHosts c) = Some (before @ after)"
    using removeFirstMatch_found [of before hostAddress h "[]" after] by simp
  let ?st = "storeHosts cm n pc (before @ after)"
  from storeHosts_simple [OF assms(3), of cm n "before @ after"]
  obtain pc' c' where p: "primaryClusters (snd ?st) n = Some pc'"
    and c: "cluster pc' = SimpleInMemCluster c'" and h: "scHosts c' = before @ after"
    and ps: "scPrioritySet c' = (case scPrioritySet c of [] \<Rightarrow> [before @ after]
                                 | hs # rest \<Rightarrow> (before @ after) # rest)"
    by blast
  from ps have hs: "HostSetAt (scPrioritySet c') 0 = Some (before @ after)"
    by (simp add: HostSetAt_def split: list.splits)
  have e: "RemoveClusterHost cm n hostAddress
             = ((case fst ?st of Some e \<Rightarrow> Some (ErrRemoveHostFailed hostAddress n e) | None \<Rightarrow> None),
                snd ?st)"
    using assms(1-3) r by (simp add: RemoveClusterHost_def split_def split: option.splits)
  from e p c h hs show ?thesis by (simp add: storeHosts_error)
qed

text \<open>
  Claim C7, as amended. With an empty address, an unregistered cluster name, a registered
  cluster that is not a simple in-memory cluster, or no host of that address,
  \<open>RemoveClusterHost\<close> returns the error of that case and changes nothing. Otherwise it
  removes the first host whose address matches (the only one when addresses are distinct)
  and keeps the other hosts in their order. It then returns nil when the previous
  configuration in the cluster's RCU cell has no reader; when readers still hold it the
  update reports \<open>Block\<close>, and the call returns an error although the host has been removed.
\<close>

theorem RemoveClusterHost_first_match:
  "(hostAddress = [] \<longrightarrow> RemoveClusterHost cm n hostAddress = (Some ErrHostAddressNil, cm)) \<and>
   (hostAddress \<noteq> [] \<and> primaryClusters cm n = None \<longrightarrow>
      RemoveClusterHost cm n hostAddress = (Some (ErrClusterNotExist n), cm)) \<and>
   (\<forall>pc i ps. hostAddress \<noteq> [] \<and> primaryClusters cm n = Some pc \<and> cluster pc = OtherCluster i ps \<longrightarrow>
      RemoveClusterHost cm n hostAddress = (Some (ErrClusterNotValid n), cm)) \<and>
   (\<forall>pc c. hostAddress \<noteq> [] \<and> primaryClusters cm n = Some pc \<and> cluster pc = SimpleInMemCluster c \<and>
        (\<forall>x \<in> set (scHosts c). AddressString x \<noteq> hostAddress) \<longrightarrow>
      RemoveClusterHost cm n hostAddress = (Some (ErrHostNotExist hostAddress), cm)) \<and>
   (\<forall>pc c before h after.
        hostAddress \<noteq> [] \<and> primaryClusters cm n = Some pc \<and> cluster pc = SimpleInMemCluster c \<and>
        scHosts c = before @ h # after \<and> AddressString h = hostAddress \<and>
        (\<forall>x \<in> set before. AddressString x \<noteq> hostAddress) \<longrightarrow>
      (\<exists>err cm' pc' c'. RemoveClusterHost cm n hostAddress = (err, cm') \<and>
           primaryClusters cm' n = Some pc' \<and> cluster pc' = SimpleInMemCluster c' \<and>
           scHosts c' = before @ after \<and>
           HostSetAt (scPrioritySet c') 0 = Some (before @ after) \<and>
           (readers (cells cm (configLock pc)) (element (cells cm (configLock pc))) = 0
              \<longrightarrow> err = None) \<and>
           (readers (cells cm (configLock pc)) (element (cells cm (configLock pc))) \<noteq> 0
              \<longrightarrow> err = Some (ErrRemoveHostFailed hostAddress n rcuBlock))))"
proof (intro conjI allI impI)
  assume "hostAddress = []"
  then show "RemoveClusterHost cm n hostAddress = (Some ErrHostAddressNil, cm)"
    by (simp add: RemoveClusterHost_def)
next
  assume "hostAddress \<noteq> [] \<and> primaryClusters cm n = None"
  then show "RemoveClusterHost cm n hostAddress = (Some (ErrClusterNotExist n), cm)"
    by (simp add: RemoveClusterHost_def)
next
  fix pc i ps
  assume "hostAddress \<noteq> [] \<and> primaryClusters cm n = Some pc \<and> cluster pc = OtherCluster i ps"
  then show "RemoveClusterHost cm n hostAddress = (Some (ErrClusterNotValid n), cm)"
    by (simp add: RemoveClusterHost_def)
next
  fix pc c
  assume "hostAddress \<noteq> [] \<and> primaryClusters cm n = Some pc \<and> cluster pc = SimpleInMemCluster c \<and>
        (\<forall>x \<in> set (scHosts c). AddressString x \<noteq> hostAddress)"
  then show "RemoveClusterHost cm n hostAddress = (Some (ErrHostNotExist hostAddress), cm)"
    by (simp add: RemoveClusterHost_def removeFirstMatch_none)
next
  fix pc c before h after
  assume "hostAddress \<noteq> [] \<and> primaryClusters cm n = Some pc \<and> cluster pc = SimpleInMemCluster c \<and>
        scHosts c = before @ h # after \<and> AddressString h = hostAddress \<and>
        (\<forall>x \<in> set before. AddressString x \<noteq> hostAddress)"
  then show "\<exists>err cm' pc' c'. RemoveClusterHost cm n hostAddress = (err, cm') \<and>
           primaryClusters cm' n = Some pc' \<and> cluster pc' = SimpleInMemCluster c' \<and>
           scHosts c' = before @ after \<and>
           HostSetAt (scPrioritySet c') 0 = Some (before @ after) \<and>
           (readers (cells cm (configLock pc)) (element (cells cm (configLock pc))) = 0
              \<longrightarrow> err = None) \<and>
           (readers (cells cm (configLock pc)) (element (cells cm (configLock pc))) \<noteq> 0
              \<longrightarrow> err = Some (ErrRemoveHostFailed hostAddress n rcuBlock))"
    using RemoveClusterHost_found [of hostAddress cm n pc c before h after] by blast
qed

lemma demoManager_cell:
  "element (cells demoManager 0) = Suc 0" "readers (cells demoManager 0) (Suc 0) = 0"
  by (simp_all add: demoManager_def demoAdded_def emptyManager_def demoNewCluster_def demoConfig_def op_defs Let_def)

lemma demoHeld_cell:
  "primaryClusters demoHeld = primaryClusters demoManager"
  "element (cells demoHeld 0) = Suc 0" "readers (cells demoHeld 0) (Suc 0) = 1"
  using demoManager_c1 demoManager_cell
  by (auto simp: demoHeld_def GetClusterSnapshot_def rcuLoad_def Let_def split_def)

lemma demoForeign_ext:
  "\<exists>v. primaryClusters demoForeign ''ext'' = Some v \<and>
       cluster v = OtherCluster \<lparr>infoName = ''ext'', LBInstance = demoLB\<rparr> []"
  using demoManager_c1 by (auto simp: demoForeign_def)

theorem RemoveClusterHost_first_match_witness:
  "RemoveClusterHost demoManager ''c1'' [] = (Some ErrHostAddressNil, demoManager) \<and>
   RemoveClusterHost demoManager ''nope'' ''10.0.0.2:8080'' = (Some (ErrClusterNotExist ''nope''), demoManager) \<and>
   RemoveClusterHost demoForeign ''ext'' ''10.0.0.2:8080'' = (Some (ErrClusterNotValid ''ext''), demoForeign) \<and>
   RemoveClusterHost demoManager ''c1'' ''10.9.9.9:80'' = (Some (ErrHostNotExist ''10.9.9.9:80''), demoManager) \<and>
   (\<exists>cm' pc' c'. RemoveClusterHost demoManager ''c1'' ''10.0.0.1:8080'' = (None, cm') \<and>
      primaryClusters cm' ''c1'' = Some pc' \<and> cluster pc' = SimpleInMemCluster c' \<and>
      scHosts c' = [NewHost hostB ''c1''])"
proof -
  note T = RemoveClusterHost_first_match
  from demoManager_c1 obtain v c where v: "primaryClusters demoManager ''c1'' = Some v"
    and l: "configLock v = 0"
    and c: "cluster v = SimpleInMemCluster c"
    and h: "scHosts c = [NewHost hostA ''c1'', NewHost hostB ''c1'']" by auto
  have n: "primaryClusters demoManager ''nope'' = None"
    by (simp add: demoManager_def demoAdded_def emptyManager_def demoNewCluster_def demoConfig_def op_defs Let_def)
  from demoForeign_ext obtain w where w: "primaryClusters demoForeign ''ext'' = Some w"
    "cluster w = OtherCluster \<lparr>infoName = ''ext'', LBInstance = demoLB\<rparr> []" by blast
  have a: "AddressString (NewHost hostA ''c1'') = ''10.0.0.1:8080''"
    "AddressString (NewHost hostB ''c1'') = ''10.0.0.2:8080''"
    by (simp_all add: AddressString_def NewHost_def hostA_def hostB_def)
  have 1: "RemoveClusterHost demoManager ''c1'' [] = (Some ErrHostAddressNil, demoManager)"
    by (rule T [THEN conjunct1, THEN mp]) simp
  have 2: "RemoveClusterHost demoManager ''nope'' ''10.0.0.2:8080''
             = (Some (ErrClusterNotExist ''nope''), demoManager)"
    by (rule T [THEN conjunct2, THEN conjunct1, THEN mp]) (simp add: n)
  have 3: "RemoveClusterHost demoForeign ''ext'' ''10.0.0.2:8080''
             = (Some (ErrClusterNotValid ''ext''), demoForeign)"
    by (rule T [THEN conjunct2, THEN conjunct2, THEN conjunct1, THEN spec, THEN spec, THEN spec, THEN mp,
                of _ _ _ w]) (simp add: w)
  have 4: "RemoveClusterHost demoManager ''c1'' ''10.9.9.9:80''
             = (Some (ErrHostNotExist ''10.9.9.9:80''), demoManager)"
    by (rule T [THEN conjunct2, THEN conjunct2, THEN conjunct2, THEN conjunct1, THEN spec, THEN spec,
                THEN mp, of _ _ _ v c]) (simp add: v c h a)
  have "\<exists>err cm' pc' c'. RemoveClusterHost demoManager ''c1'' ''10.0.0.1:8080'' = (err, cm') \<and>
           primaryClusters cm' ''c1'' = Some pc' \<and> cluster pc' = SimpleInMemCluster c' \<and>
           scHosts c' = [] @ [NewHost hostB ''c1''] \<and>
           HostSetAt (scPrioritySet c') 0 = Some ([] @ [NewHost hostB ''c1'']) \<and>
           (readers (cells demoManager (configLock v)) (element (cells demoManager (configLock v))) = 0
              \<longrightarrow> err = None) \<and>
           (readers (cells demoManager (configLock v)) (element (cells demoManager (configLock v))) \<noteq> 0
              \<longrightarrow> err = Some (ErrRemoveHostFailed ''10.0.0.1:8080'' ''c1'' rcuBlock))"
    by (rule T [THEN conjunct2, THEN conjunct2, THEN conjunct2, THEN conjunct2, THEN spec, THEN spec,
                THEN spec, THEN spec, THEN spec, THEN mp, of _ _ _ v c "[]" "NewHost hostA ''c1''"])
       (simp add: v c h a)
  then have 5: "\<exists>cm' pc' c'. RemoveClusterHost demoManager ''c1'' ''10.0.0.1:8080'' = (None, cm') \<and>
      primaryClusters cm' ''c1'' = Some pc' \<and> cluster pc' = SimpleInMemCluster c' \<and>
      scHosts c' = [NewHost hostB ''c1'']"
    by (auto simp: l demoManager_cell)
  from 1 2 3 4 5 show ?thesis by blast
qed

text \<open>
  The claim as first stated fails while a reader holds a snapshot: the host with the address
  is there, and the call returns an error.
\<close>

theorem RemoveClusterHost_blocked_counterexample:
  "(\<exists>v c. primaryClusters demoHeld ''c1'' = Some v \<and> cluster v = SimpleInMemCluster c \<and>
      scHosts c = [NewHost hostA ''c1'', NewHost hostB ''c1'']) \<and>
   AddressString (NewHost hostB ''c1'') = ''10.0.0.2:8080'' \<and>
   fst (RemoveClusterHost demoHeld ''c1'' ''10.0.0.2:8080'')
     = Some (ErrRemoveHostFailed ''10.0.0.2:8080'' ''c1'' rcuBlock)"
proof -
  from demoManager_c1 obtain v c where v: "primaryClusters demoHeld ''c1'' = Some v"
    and l: "configLock v = 0"
    and c: "cluster v = SimpleInMemCluster c"
    and h: "scHosts c = [NewHost hostA ''c1'', NewHost hostB ''c1'']"
    by (auto simp: demoHeld_cell)
  have a: "AddressString (NewHost hostA ''c1'') = ''10.0.0.1:8080''"
    "AddressString (NewHost hostB ''c1'') = ''10.0.0.2:8080''"
    by (simp_all add: AddressString_def NewHost_def hostA_def hostB_def)
  have "\<exists>err cm' pc' c'. RemoveClusterHost demoHeld ''c1'' ''10.0.0.2:8080'' = (err, cm') \<and>
           primaryClusters cm' ''c1'' = Some pc' \<and> cluster pc' = SimpleInMemCluster c' \<and>
           scHosts c' = [NewHost hostA ''c1''] @ [] \<and>
           HostSetAt (scPrioritySet c') 0 = Some ([NewHost hostA ''c1''] @ []) \<and>
           (readers (cells demoHeld (configLock v)) (element (cells demoHeld (configLock v))) = 0
              \<longrightarrow> err = None) \<and>
           (readers (cells demoHeld (configLock v)) (element (cells demoHeld (configLock v))) \<noteq> 0
              \<longrightarrow> err = Some (ErrRemoveHostFailed ''10.0.0.2:8080'' ''c1'' rcuBlock))"
    by (rule RemoveClusterHost_found [of _ _ _ v c "[NewHost hostA ''c1'']" "NewHost hostB ''c1''" "[]"])
       (simp_all add: v c h a)
  then have "fst (RemoveClusterHost demoHeld ''c1'' ''10.0.0.2:8080'')
     = Some (ErrRemoveHostFailed ''10.0.0.2:8080'' ''c1'' rcuBlock)"
    by (auto simp: l demoHeld_cell)
  with v c h a show ?thesis by blast
qed

section \<open>The pool-selection loop: properties\<close>


lemma logEvent_fields [simp]:
  "runEvents (logEvent e r) = runEvents r @ [e]"
  "runManager (logEvent e r) = runManager r"
  "runChecks (logEvent e r) = runChecks r"
  by (simp_all add: logEvent_def)

lemma setConnectionPool_fields [simp]:
  "runEvents (setConnectionPool p m r) = runEvents r"
  "runChecks (setConnectionPool p m r) = runChecks r"
  "protocolConnPool (runManager (setConnectionPool p m r)) = (protocolConnPool (runManager r))(p \<mapsto> m)"
  by (simp_all add: setConnectionPool_def)









































end
